theory Spec2Isabelle
  imports Main
begin

section \<open>Python values the script handles\<close>

text \<open>
  A cell of the inventory sheet, as \<^verbatim>\<open>Inventory.cell(row, column).value\<close> returns it:
  \<^verbatim>\<open>None\<close> for an empty cell, a \<^verbatim>\<open>str\<close>, or a value of another type. \<open>CNum\<close> stands
  for every non-string type (numbers, booleans, dates): the script only ever lowercases a
  cell, concatenates it, compares it with a string or looks it up in a list of strings,
  and all non-string values behave alike under these four operations.
  A \<open>char\<close> is a code point below 256.
\<close>

datatype cell = CNone | CStr string | CNum int

text \<open>
  Exceptions. The payload is the text \<^verbatim>\<open>str(e)\<close> gives; for the exceptions the
  interpreter raises itself it is abbreviated. All four are subclasses of
  \<^verbatim>\<open>Exception\<close>, so \<^verbatim>\<open>except Exception\<close> catches each of them.
\<close>

datatype exn = AttributeError string | TypeError string | KeyError string | Exception string

fun str_exn :: "exn \<Rightarrow> string" where
  "str_exn (AttributeError m) = m"
| "str_exn (TypeError m) = m"
| "str_exn (KeyError m) = m"
| "str_exn (Exception m) = m"

text \<open>The result of a statement: it completes, or an exception propagates out of it.\<close>

datatype outcome = Ok | Raised exn

text \<open>
  \<^verbatim>\<open>str.lower()\<close>. Only the letters A to Z are mapped; on every string this agrees with
  Python on whether the result equals \<^verbatim>\<open>'yes'\<close>, since no character outside A to Z
  lowercases to \<^verbatim>\<open>y\<close>, \<^verbatim>\<open>e\<close> or \<^verbatim>\<open>s\<close>.
\<close>

definition lower_char :: "char \<Rightarrow> char" where
  "lower_char c =
     (case map_of (zip ''ABCDEFGHIJKLMNOPQRSTUVWXYZ'' ''abcdefghijklmnopqrstuvwxyz'') c of
        Some l \<Rightarrow> l
      | None \<Rightarrow> c)"

definition lower :: "string \<Rightarrow> string" where
  "lower s = map lower_char s"

text \<open>\<^verbatim>\<open>x in lst\<close> for a cell \<open>x\<close> and a list of strings.\<close>

fun cell_in :: "cell \<Rightarrow> string list \<Rightarrow> bool" where
  "cell_in (CStr t) lst = (t \<in> set lst)"
| "cell_in CNone lst = False"
| "cell_in (CNum n) lst = False"

text \<open>\<^verbatim>\<open>x + suffix\<close> for a cell \<open>x\<close> and a string: a \<^verbatim>\<open>TypeError\<close> unless \<open>x\<close> is a string.\<close>

fun cell_concat :: "cell \<Rightarrow> string \<Rightarrow> exn + string" where
  "cell_concat (CStr t) suffix = Inr (t @ suffix)"
| "cell_concat CNone suffix = Inl (TypeError ''unsupported operand type(s) for +'')"
| "cell_concat (CNum n) suffix = Inl (TypeError ''unsupported operand type(s) for +'')"

text \<open>\<^verbatim>\<open>str(n)\<close> for a non-negative integer.\<close>

function str_nat :: "nat \<Rightarrow> string" where
  "str_nat n =
     (if n < 10 then [''0123456789'' ! n]
      else str_nat (n div 10) @ [''0123456789'' ! (n mod 10)])"
  by pat_completeness auto
termination
  by (relation "measure id") auto

declare str_nat.simps [simp del]

section \<open>JSON documents and \<^verbatim>\<open>json.dumps\<close>\<close>

text \<open>
  A JSON-serialisable Python value. \<open>JNum\<close> carries the text Python prints for the
  number, which is what the encoder emits. A \<^verbatim>\<open>dict\<close> keeps its insertion order, so it is
  an association list.
\<close>

datatype json = JNull | JBool bool | JNum string | JStr string
  | JList "json list" | JDict "(string \<times> json) list"

definition hex_digit :: "nat \<Rightarrow> char" where
  "hex_digit n = ''0123456789abcdef'' ! n"

text \<open>The encoder's string escaping with \<^verbatim>\<open>ensure_ascii=True\<close>, its default.\<close>

definition escape_char :: "char \<Rightarrow> string" where
  "escape_char c =
     (let n = (of_char c :: nat) in
      if n = 0x22 then [CHR 0x5C, CHR 0x22]
      else if n = 0x5C then [CHR 0x5C, CHR 0x5C]
      else if n = 0x08 then [CHR 0x5C, CHR ''b'']
      else if n = 0x0C then [CHR 0x5C, CHR ''f'']
      else if n = 0x0A then [CHR 0x5C, CHR ''n'']
      else if n = 0x0D then [CHR 0x5C, CHR ''r'']
      else if n = 0x09 then [CHR 0x5C, CHR ''t'']
      else if n < 0x20 \<or> 0x7E < n
        then [CHR 0x5C, CHR ''u'', CHR ''0'', CHR ''0'', hex_digit (n div 16), hex_digit (n mod 16)]
      else [c])"

definition encode_string :: "string \<Rightarrow> string" where
  "encode_string s = [CHR 0x22] @ concat (map escape_char s) @ [CHR 0x22]"

fun join_with :: "string \<Rightarrow> string list \<Rightarrow> string" where
  "join_with sep [] = []"
| "join_with sep [x] = x"
| "join_with sep (x # y # ys) = x @ sep @ join_with sep (y # ys)"

text \<open>\<^verbatim>\<open>json.dumps(obj)\<close> with the default separators \<^verbatim>\<open>', '\<close> and \<^verbatim>\<open>': '\<close>.\<close>

fun dumps :: "json \<Rightarrow> string"
  and dumps_items :: "json list \<Rightarrow> string list"
  and dumps_members :: "(string \<times> json) list \<Rightarrow> string list" where
  "dumps JNull = ''null''"
| "dumps (JBool b) = (if b then ''true'' else ''false'')"
| "dumps (JNum r) = r"
| "dumps (JStr s) = encode_string s"
| "dumps (JList xs) = ''['' @ join_with '', '' (dumps_items xs) @ '']''"
| "dumps (JDict kvs) = ''{'' @ join_with '', '' (dumps_members kvs) @ ''}''"
| "dumps_items [] = []"
| "dumps_items (x # xs) = dumps x # dumps_items xs"
| "dumps_members [] = []"
| "dumps_members ((k, v) # kvs) = (encode_string k @ '': '' @ dumps v) # dumps_members kvs"

definition newline_indent :: "nat \<Rightarrow> nat \<Rightarrow> string" where
  "newline_indent indent level = CHR 0x0A # replicate (indent * level) CHR '' ''"

text \<open>
  \<^verbatim>\<open>json.dumps(obj, indent=n)\<close>, at nesting depth \<open>level\<close>: one member per line, the item
  separator \<^verbatim>\<open>','\<close>, the key separator \<^verbatim>\<open>': '\<close>.
\<close>

fun dumps_indent :: "nat \<Rightarrow> nat \<Rightarrow> json \<Rightarrow> string"
  and dumps_indent_items :: "nat \<Rightarrow> nat \<Rightarrow> json list \<Rightarrow> string list"
  and dumps_indent_members :: "nat \<Rightarrow> nat \<Rightarrow> (string \<times> json) list \<Rightarrow> string list" where
  "dumps_indent indent level (JList xs) =
     (if xs = [] then ''[]''
      else ''['' @ newline_indent indent (level + 1)
           @ join_with ('','' @ newline_indent indent (level + 1))
               (dumps_indent_items indent (level + 1) xs)
           @ newline_indent indent level @ '']'')"
| "dumps_indent indent level (JDict kvs) =
     (if kvs = [] then ''{}''
      else ''{'' @ newline_indent indent (level + 1)
           @ join_with ('','' @ newline_indent indent (level + 1))
               (dumps_indent_members indent (level + 1) kvs)
           @ newline_indent indent level @ ''}'')"
| "dumps_indent indent level j = dumps j"
| "dumps_indent_items indent level [] = []"
| "dumps_indent_items indent level (x # xs) =
     dumps_indent indent level x # dumps_indent_items indent level xs"
| "dumps_indent_members indent level [] = []"
| "dumps_indent_members indent level ((k, v) # kvs) =
     (encode_string k @ '': '' @ dumps_indent indent level v)
       # dumps_indent_members indent level kvs"

text \<open>\<^verbatim>\<open>d[k] = v\<close> on a \<^verbatim>\<open>dict\<close>: an existing key keeps its place, a new one goes last.\<close>

fun dict_set :: "string \<Rightarrow> json \<Rightarrow> (string \<times> json) list \<Rightarrow> (string \<times> json) list" where
  "dict_set k v [] = [(k, v)]"
| "dict_set k v ((k', v') # d) = (if k' = k then (k, v) # d else (k', v') # dict_set k v d)"

section \<open>Variables and constants of the script\<close>

definition archiveFlag :: string where
  "archiveFlag = ''yes''"

definition deleteFlag :: string where
  "deleteFlag = ''yes''"

definition idColumnNumber :: nat where
  "idColumnNumber = 1"

definition ownerColumnNumber :: nat where
  "ownerColumnNumber = 2"

definition typeColumnNumber :: nat where
  "typeColumnNumber = 8"

definition archiveFlagColumnNumber :: nat where
  "archiveFlagColumnNumber = 11"

definition deleteFlagColumnNumber :: nat where
  "deleteFlagColumnNumber = 12"

definition lst_file_types :: "string list" where
  "lst_file_types = [''File Geodatabase'', ''Service Definition'', ''Shapefile'', ''CSV'',
     ''Mobile Map Package'', ''Microsoft Word'', ''Project Package'', ''Notebook'', ''PDF'',
     ''CSV Collection'', ''Tile Package'']"

definition lst_export_services :: "string list" where
  "lst_export_services = [''Feature Service'']"

definition lst_other_services :: "string list" where
  "lst_other_services = [''Image Service'', ''Scene Service'']"

definition lst_data_apps :: "string list" where
  "lst_data_apps = [''Web Map'', ''Web Scene'', ''Web Mapping Application'', ''Dashboard'',
     ''Feature Collection'']"

definition lst_other_apps :: "string list" where
  "lst_other_apps = [''Form'', ''Web Experience'', ''StoryMap'']"

section \<open>The inventory sheet\<close>

text \<open>
  The sheet is the list of its rows, each the list of its cells; a cell beyond the end
  of a row is empty. Columns count from 1.
\<close>

definition cell_value :: "cell list \<Rightarrow> nat \<Rightarrow> cell" where
  "cell_value row column =
     (if 1 \<le> column \<and> column \<le> length row then row ! (column - 1) else CNone)"

record inventory_row =
  SourceItem_Id :: cell
  SourceItem_Owner :: cell
  SourceItem_ArchiveFlag_Value :: cell
  SourceItem_DeleteFlag_Value :: cell
  SourceItem_Type :: cell

definition read_row :: "cell list \<Rightarrow> inventory_row" where
  "read_row row =
     \<lparr> SourceItem_Id = cell_value row idColumnNumber,
       SourceItem_Owner = cell_value row ownerColumnNumber,
       SourceItem_ArchiveFlag_Value = cell_value row archiveFlagColumnNumber,
       SourceItem_DeleteFlag_Value = cell_value row deleteFlagColumnNumber,
       SourceItem_Type = cell_value row typeColumnNumber \<rparr>"

text \<open>\<^verbatim>\<open>range(2, inventory_row + 1)\<close>: row 1 is the header, every later row is read.\<close>

definition data_rows :: "cell list list \<Rightarrow> inventory_row list" where
  "data_rows sheet = map read_row (drop 1 sheet)"

section \<open>The world the script acts on\<close>

text \<open>
  The remote content service. An item answers each operation the script may call on it
  with a result or an exception; \<open>(name, data)\<close> is a file the service sends, saved under
  the folder the script names. A download that raises leaves no file behind. The package
  an export creates stays on the service as an item of its own; the script never asks for
  it by id, and the model does not add it to the content.
\<close>

type_synonym payload = "string \<times> string"

record related_item =
  rel_id :: string
  rel_url :: "string option"
  rel_download :: "exn + payload"

record exported_item =
  exported_id :: string
  exported_download :: "exn + payload"

record remote_item =
  title :: string
  download_result :: "exn + payload"
  get_data_result :: "exn + json"
  export_result :: "exn + exported_item"
  related_data_result :: "exn + related_item list"
  related_services_result :: "exn + related_item list"
  resources_export_result :: "exn + payload"
  delete_result :: "exn + bool"

datatype fetch = Missing | Unreachable exn | Found remote_item

datatype remote_call =
    Connect
  | VerifyIdentity
  | Fetch string
  | Download string
  | GetData string
  | Export string
  | ExportedDownload string
  | RelatedItems string string
  | RelatedDownload string
  | ResourcesExport string
  | Delete string

datatype level = INFO | ERROR

text \<open>
  The state: the local file system (the paths that are directories, and the text of each
  file, both keyed by the path string the script builds), the content of the remote
  service by item id (what \<^verbatim>\<open>content.get\<close> answers), the remote calls made so far and the
  log. The local disk is reliable: \<^verbatim>\<open>os.mkdir\<close> of a path that does not exist and
  \<^verbatim>\<open>open(path, "a")\<close> succeed. Two path strings are the same entry only when they are
  equal.
\<close>

record world =
  dirs :: "string set"
  files :: "string \<rightharpoonup> string"
  content :: "string \<Rightarrow> fetch"
  calls :: "remote_call list"
  log :: "(level \<times> string) list"

text \<open>\<^verbatim>\<open>os.path.join(a, b)\<close> of \<^verbatim>\<open>posixpath\<close> for two components.\<close>

definition path_join :: "string \<Rightarrow> string \<Rightarrow> string" where
  "path_join a b =
     (if b \<noteq> [] \<and> hd b = CHR ''/'' then b
      else if a = [] \<or> last a = CHR ''/'' then a @ b
      else a @ ''/'' @ b)"

definition path_exists :: "string \<Rightarrow> world \<Rightarrow> bool" where
  "path_exists p w = (p \<in> dirs w \<or> files w p \<noteq> None)"

definition mkdir :: "string \<Rightarrow> world \<Rightarrow> world" where
  "mkdir p w = w\<lparr>dirs := insert p (dirs w)\<rparr>"

text \<open>\<^verbatim>\<open>f = open(p, "a"); f.write(text); f.close()\<close>\<close>

definition append_file :: "string \<Rightarrow> string \<Rightarrow> world \<Rightarrow> world" where
  "append_file p text w =
     w\<lparr>files := (files w)(p \<mapsto> (case files w p of None \<Rightarrow> text | Some old \<Rightarrow> old @ text))\<rparr>"

definition save_payload :: "string \<Rightarrow> payload \<Rightarrow> world \<Rightarrow> world" where
  "save_payload folder f w = w\<lparr>files := (files w)(path_join folder (fst f) \<mapsto> snd f)\<rparr>"

definition logging :: "level \<Rightarrow> string \<Rightarrow> world \<Rightarrow> world" where
  "logging lvl msg w = w\<lparr>log := log w @ [(lvl, msg)]\<rparr>"

definition remote :: "remote_call \<Rightarrow> world \<Rightarrow> world" where
  "remote c w = w\<lparr>calls := calls w @ [c]\<rparr>"

subsection \<open>Operations of the remote service\<close>

text \<open>\<^verbatim>\<open>source.content.get(SourceItem_Id)\<close>\<close>

definition content_get :: "string \<Rightarrow> world \<Rightarrow> (exn + remote_item option) \<times> world" where
  "content_get sid w =
     (case content w sid of
        Missing \<Rightarrow> (Inr None, remote (Fetch sid) w)
      | Unreachable e \<Rightarrow> (Inl e, remote (Fetch sid) w)
      | Found it \<Rightarrow> (Inr (Some it), remote (Fetch sid) w))"

text \<open>\<^verbatim>\<open>Source_item.download(item_folder)\<close>\<close>

definition item_download :: "string \<Rightarrow> remote_item \<Rightarrow> string \<Rightarrow> world \<Rightarrow> outcome \<times> world" where
  "item_download sid it folder w =
     (case download_result it of
        Inl e \<Rightarrow> (Raised e, remote (Download sid) w)
      | Inr f \<Rightarrow> (Ok, save_payload folder f (remote (Download sid) w)))"

text \<open>\<^verbatim>\<open>Source_item.get_data()\<close>\<close>

definition item_get_data :: "string \<Rightarrow> remote_item \<Rightarrow> world \<Rightarrow> (exn + json) \<times> world" where
  "item_get_data sid it w = (get_data_result it, remote (GetData sid) w)"

text \<open>\<^verbatim>\<open>Source_item.export(SourceItem_Id, 'File Geodatabase', wait=True)\<close>\<close>

definition item_export :: "string \<Rightarrow> remote_item \<Rightarrow> world \<Rightarrow> (exn + exported_item) \<times> world" where
  "item_export sid it w = (export_result it, remote (Export sid) w)"

text \<open>\<^verbatim>\<open>exported_folder_item.download(save_path=item_folder)\<close>\<close>

definition exported_item_download :: "exported_item \<Rightarrow> string \<Rightarrow> world \<Rightarrow> outcome \<times> world" where
  "exported_item_download ex folder w =
     (case exported_download ex of
        Inl e \<Rightarrow> (Raised e, remote (ExportedDownload (exported_id ex)) w)
      | Inr f \<Rightarrow> (Ok, save_payload folder f (remote (ExportedDownload (exported_id ex)) w)))"

text \<open>\<^verbatim>\<open>Source_item.related_items(rel_type, "forward")\<close>\<close>

definition item_related_items ::
  "string \<Rightarrow> string \<Rightarrow> (exn + related_item list) \<Rightarrow> world \<Rightarrow> (exn + related_item list) \<times> world" where
  "item_related_items sid rel_type answer w = (answer, remote (RelatedItems sid rel_type) w)"

text \<open>\<^verbatim>\<open>rel_item.download(item_folder)\<close>\<close>

definition related_item_download :: "related_item \<Rightarrow> string \<Rightarrow> world \<Rightarrow> outcome \<times> world" where
  "related_item_download rel folder w =
     (case rel_download rel of
        Inl e \<Rightarrow> (Raised e, remote (RelatedDownload (rel_id rel)) w)
      | Inr f \<Rightarrow> (Ok, save_payload folder f (remote (RelatedDownload (rel_id rel)) w)))"

text \<open>\<^verbatim>\<open>Source_item.resources.export(item_folder)\<close>\<close>

definition item_resources_export :: "string \<Rightarrow> remote_item \<Rightarrow> string \<Rightarrow> world \<Rightarrow> outcome \<times> world" where
  "item_resources_export sid it folder w =
     (case resources_export_result it of
        Inl e \<Rightarrow> (Raised e, remote (ResourcesExport sid) w)
      | Inr f \<Rightarrow> (Ok, save_payload folder f (remote (ResourcesExport sid) w)))"

text \<open>
  \<^verbatim>\<open>Source_item.delete()\<close>: it raises, or returns whether the service removed the item.
\<close>

definition item_delete :: "string \<Rightarrow> remote_item \<Rightarrow> world \<Rightarrow> outcome \<times> world" where
  "item_delete sid it w =
     (case delete_result it of
        Inl e \<Rightarrow> (Raised e, remote (Delete sid) w)
      | Inr removed \<Rightarrow>
          (Ok, if removed then (remote (Delete sid) w)\<lparr>content := (content w)(sid := Missing)\<rparr>
               else remote (Delete sid) w))"

section \<open>The archival strategies\<close>

text \<open>
  The delete block that ends four of the branches:
  \<^verbatim>\<open>
  try:
      if SourceItem_DeleteFlag_Value == deleteFlag:
          Source_item.delete()
  except Exception as del_ex:
      logging.error("\tError deleting id: " + SourceItem_Id)
  \<close>
  \<open>delete_body\<close> is the body of the \<^verbatim>\<open>try\<close>, \<open>delete_if_indicated\<close> the whole statement.
\<close>

definition delete_body :: "inventory_row \<Rightarrow> string \<Rightarrow> remote_item \<Rightarrow> world \<Rightarrow> outcome \<times> world" where
  "delete_body r sid it w =
     (if SourceItem_DeleteFlag_Value r = CStr deleteFlag then item_delete sid it w else (Ok, w))"

definition delete_if_indicated ::
  "inventory_row \<Rightarrow> string \<Rightarrow> remote_item \<Rightarrow> world \<Rightarrow> outcome \<times> world" where
  "delete_if_indicated r sid it w =
     (case delete_body r sid it w of
        (Ok, w1) \<Rightarrow> (Ok, w1)
      | (Raised del_ex, w1) \<Rightarrow> (Ok, logging ERROR (CHR 0x09 # ''Error deleting id: '' @ sid) w1))"

text \<open>
  The archival statements of the data applications, repeated for the other applications:
  \<^verbatim>\<open>
  text = Source_item.get_data()
  text_str = json.dumps(text)
  TargetJSONFile = os.path.join(item_folder, SourceItem_Type + ".json")
  f = open(TargetJSONFile, "a")
  json.dump(text_str, f)
  f.close()
  \<close>
\<close>

definition write_data_document ::
  "inventory_row \<Rightarrow> string \<Rightarrow> remote_item \<Rightarrow> string \<Rightarrow> world \<Rightarrow> outcome \<times> world" where
  "write_data_document r sid it item_folder w =
     (case item_get_data sid it w of
        (Inl e, w1) \<Rightarrow> (Raised e, w1)
      | (Inr text, w1) \<Rightarrow>
          (let text_str = dumps text in
           case cell_concat (SourceItem_Type r) ''.json'' of
             Inl e \<Rightarrow> (Raised e, w1)
           | Inr name \<Rightarrow>
               (Ok, append_file (path_join item_folder name) (dumps (JStr text_str)) w1)))"

text \<open>
  The error document and its file:
  \<^verbatim>\<open>
  error_data = {"itemname": Source_item.title, "itemid": SourceItem_Id, "download_error": msg}
  TargetJSONFile = os.path.join(item_folder, SourceItem_Type + "_error.json")
  f = open(TargetJSONFile, "a")
  json.dump(error_data, f, indent=4)
  f.close()
  \<close>
\<close>

definition error_data :: "remote_item \<Rightarrow> string \<Rightarrow> string \<Rightarrow> json" where
  "error_data it sid msg =
     JDict [(''itemname'', JStr (title it)), (''itemid'', JStr sid), (''download_error'', JStr msg)]"

definition write_error_file ::
  "inventory_row \<Rightarrow> string \<Rightarrow> json \<Rightarrow> world \<Rightarrow> outcome \<times> world" where
  "write_error_file r item_folder doc w =
     (case cell_concat (SourceItem_Type r) ''_error.json'' of
        Inl e \<Rightarrow> (Raised e, w)
      | Inr name \<Rightarrow> (Ok, append_file (path_join item_folder name) (dumps_indent 4 0 doc) w))"

subsection \<open>File types\<close>

text \<open>\<open>archive_file\<close> is the archival statement of the branch, \<open>strategy_file_types\<close> the branch.\<close>

definition archive_file :: "string \<Rightarrow> remote_item \<Rightarrow> string \<Rightarrow> world \<Rightarrow> outcome \<times> world" where
  "archive_file sid it item_folder w = item_download sid it item_folder w"

definition strategy_file_types :: "inventory_row \<Rightarrow> string \<Rightarrow> string \<Rightarrow> world \<Rightarrow> outcome \<times> world" where
  "strategy_file_types r sid item_folder w =
     (case content_get sid w of
        (Inl e, w1) \<Rightarrow> (Raised e, w1)
      | (Inr None, w1) \<Rightarrow> (Ok, w1)
      | (Inr (Some Source_item), w1) \<Rightarrow>
          (case archive_file sid Source_item item_folder w1 of
             (Raised e, w2) \<Rightarrow> (Raised e, w2)
           | (Ok, w2) \<Rightarrow> delete_if_indicated r sid Source_item w2))"

subsection \<open>Data applications\<close>

definition strategy_data_apps :: "inventory_row \<Rightarrow> string \<Rightarrow> string \<Rightarrow> world \<Rightarrow> outcome \<times> world" where
  "strategy_data_apps r sid item_folder w =
     (case content_get sid w of
        (Inl e, w1) \<Rightarrow> (Raised e, w1)
      | (Inr None, w1) \<Rightarrow> (Ok, w1)
      | (Inr (Some Source_item), w1) \<Rightarrow>
          (case write_data_document r sid Source_item item_folder w1 of
             (Raised e, w2) \<Rightarrow> (Raised e, w2)
           | (Ok, w2) \<Rightarrow> delete_if_indicated r sid Source_item w2))"

subsection \<open>Export services\<close>

text \<open>
  \<open>archive_export\<close> is the archival part of the \<^verbatim>\<open>try\<close> body (export, then download of
  the exported package), \<open>export_body\<close> the whole body, which ends with the delete block.
\<close>

definition archive_export :: "string \<Rightarrow> remote_item \<Rightarrow> string \<Rightarrow> world \<Rightarrow> outcome \<times> world" where
  "archive_export sid it item_folder w =
     (case item_export sid it w of
        (Inl e, w1) \<Rightarrow> (Raised e, w1)
      | (Inr exported_folder_item, w1) \<Rightarrow>
          (let w2 = logging INFO
                      (''The id of extracted folder --> '' @ exported_id exported_folder_item @ ''.'') w1;
               w3 = logging INFO ''The data is downloading'' w2
           in case exported_item_download exported_folder_item item_folder w3 of
                (Raised e, w4) \<Rightarrow> (Raised e, w4)
              | (Ok, w4) \<Rightarrow> (Ok, logging INFO ''The data is downloaded.'' w4)))"

definition export_body :: "inventory_row \<Rightarrow> string \<Rightarrow> remote_item \<Rightarrow> string \<Rightarrow> world \<Rightarrow> outcome \<times> world" where
  "export_body r sid it item_folder w =
     (case archive_export sid it item_folder w of
        (Raised e, w1) \<Rightarrow> (Raised e, w1)
      | (Ok, w1) \<Rightarrow> delete_if_indicated r sid it w1)"

definition strategy_export_services ::
  "inventory_row \<Rightarrow> string \<Rightarrow> string \<Rightarrow> world \<Rightarrow> outcome \<times> world" where
  "strategy_export_services r sid item_folder w =
     (case content_get sid w of
        (Inl e, w1) \<Rightarrow> (Raised e, w1)
      | (Inr None, w1) \<Rightarrow> (Ok, w1)
      | (Inr (Some Source_item), w1) \<Rightarrow>
          (case export_body r sid Source_item item_folder w1 of
             (Ok, w2) \<Rightarrow> (Ok, w2)
           | (Raised copy_ex, w2) \<Rightarrow>
               (let w3 = logging ERROR (CHR 0x09 # ''Error exporting '' @ title Source_item) w2;
                    w4 = logging ERROR (CHR 0x09 # str_exn copy_ex) w3
                in write_error_file r item_folder
                     (error_data Source_item sid (str_exn copy_ex)) w4)))"

subsection \<open>Other services\<close>

definition strategy_other_services ::
  "inventory_row \<Rightarrow> string \<Rightarrow> string \<Rightarrow> world \<Rightarrow> outcome \<times> world" where
  "strategy_other_services r sid item_folder w =
     (case content_get sid w of
        (Inl e, w1) \<Rightarrow> (Raised e, w1)
      | (Inr None, w1) \<Rightarrow> (Ok, w1)
      | (Inr (Some Source_item), w1) \<Rightarrow>
          write_error_file r item_folder
            (error_data Source_item sid
               ''Unable to export this format. Please find source files for this service'') w1)"

subsection \<open>Other applications\<close>

text \<open>\<^verbatim>\<open>for rel_item in rel_items_data: data_file = rel_item.download(item_folder)\<close>\<close>

fun download_related :: "string \<Rightarrow> related_item list \<Rightarrow> world \<Rightarrow> outcome \<times> world" where
  "download_related item_folder [] w = (Ok, w)"
| "download_related item_folder (rel_item # rest) w =
     (case related_item_download rel_item item_folder w of
        (Raised e, w1) \<Rightarrow> (Raised e, w1)
      | (Ok, w1) \<Rightarrow> download_related item_folder rest w1)"

text \<open>
  The loop over the related services, from the counter \<open>ind\<close> and the dictionary so far:
  \<^verbatim>\<open>
  ind = ind + 1
  dict_relations[str(ind) + " relation ITEM ID for this form is "] = rel_item_id
  dict_relations[str(ind) + " relation ITEM URL for this form is "] = rel_item.url
  \<close>
\<close>

fun relation_entries ::
  "nat \<Rightarrow> related_item list \<Rightarrow> (string \<times> json) list \<Rightarrow> (string \<times> json) list" where
  "relation_entries ind [] dict_relations = dict_relations"
| "relation_entries ind (rel_item # rest) dict_relations =
     relation_entries (ind + 1) rest
       (dict_set (str_nat (ind + 1) @ '' relation ITEM URL for this form is '')
          (case rel_url rel_item of None \<Rightarrow> JNull | Some u \<Rightarrow> JStr u)
          (dict_set (str_nat (ind + 1) @ '' relation ITEM ID for this form is '')
             (JStr (rel_id rel_item)) dict_relations))"

definition form_relations ::
  "inventory_row \<Rightarrow> string \<Rightarrow> remote_item \<Rightarrow> string \<Rightarrow> world \<Rightarrow> outcome \<times> world" where
  "form_relations r sid it item_folder w =
     (case item_related_items sid ''Survey2Data'' (related_data_result it) w of
        (Inl e, w1) \<Rightarrow> (Raised e, w1)
      | (Inr rel_items_data, w1) \<Rightarrow>
          (case download_related item_folder rel_items_data w1 of
             (Raised e, w2) \<Rightarrow> (Raised e, w2)
           | (Ok, w2) \<Rightarrow>
               (case item_related_items sid ''Survey2Service'' (related_services_result it) w2 of
                  (Inl e, w3) \<Rightarrow> (Raised e, w3)
                | (Inr rel_items_services, w3) \<Rightarrow>
                    (case cell_concat (SourceItem_Type r) ''_rel_services.json'' of
                       Inl e \<Rightarrow> (Raised e, w3)
                     | Inr name \<Rightarrow>
                         (Ok, append_file (path_join item_folder name)
                                (dumps_indent 4 0 (JDict (relation_entries 0 rel_items_services [])))
                                w3)))))"

definition archive_other_app ::
  "inventory_row \<Rightarrow> string \<Rightarrow> remote_item \<Rightarrow> string \<Rightarrow> world \<Rightarrow> outcome \<times> world" where
  "archive_other_app r sid it item_folder w =
     (case write_data_document r sid it item_folder w of
        (Raised e, w1) \<Rightarrow> (Raised e, w1)
      | (Ok, w1) \<Rightarrow>
          (if SourceItem_Type r = CStr ''Form'' then form_relations r sid it item_folder w1
           else item_resources_export sid it item_folder w1))"

definition strategy_other_apps :: "inventory_row \<Rightarrow> string \<Rightarrow> string \<Rightarrow> world \<Rightarrow> outcome \<times> world" where
  "strategy_other_apps r sid item_folder w =
     (case content_get sid w of
        (Inl e, w1) \<Rightarrow> (Raised e, w1)
      | (Inr None, w1) \<Rightarrow> (Ok, w1)
      | (Inr (Some Source_item), w1) \<Rightarrow>
          (case archive_other_app r sid Source_item item_folder w1 of
             (Raised e, w2) \<Rightarrow> (Raised e, w2)
           | (Ok, w2) \<Rightarrow> delete_if_indicated r sid Source_item w2))"

subsection \<open>Every other type\<close>

definition strategy_unsupported ::
  "inventory_row \<Rightarrow> string \<Rightarrow> string \<Rightarrow> world \<Rightarrow> outcome \<times> world" where
  "strategy_unsupported r sid item_folder w =
     (case content_get sid w of
        (Inl e, w1) \<Rightarrow> (Raised e, w1)
      | (Inr None, w1) \<Rightarrow> (Ok, w1)
      | (Inr (Some Source_item), w1) \<Rightarrow>
          write_error_file r item_folder
            (error_data Source_item sid ''Export operation not supported for this data type'') w1)"

section \<open>The loop over the inventory rows\<close>

text \<open>The chain of \<^verbatim>\<open>if SourceItem_Type in ...\<close> / \<^verbatim>\<open>elif\<close> / \<^verbatim>\<open>else\<close>, in the order of the script.\<close>

definition archive_by_type :: "inventory_row \<Rightarrow> string \<Rightarrow> string \<Rightarrow> world \<Rightarrow> outcome \<times> world" where
  "archive_by_type r sid item_folder w =
     (if cell_in (SourceItem_Type r) lst_file_types then strategy_file_types r sid item_folder w
      else if cell_in (SourceItem_Type r) lst_data_apps then strategy_data_apps r sid item_folder w
      else if cell_in (SourceItem_Type r) lst_export_services
        then strategy_export_services r sid item_folder w
      else if cell_in (SourceItem_Type r) lst_other_services
        then strategy_other_services r sid item_folder w
      else if cell_in (SourceItem_Type r) lst_other_apps then strategy_other_apps r sid item_folder w
      else strategy_unsupported r sid item_folder w)"

text \<open>
  The body of the \<^verbatim>\<open>for\<close> loop for one row. \<^verbatim>\<open>archiveFlagValue.lower()\<close> raises
  \<^verbatim>\<open>AttributeError\<close> on a value that is not a string, and \<^verbatim>\<open>os.path.join\<close> raises
  \<^verbatim>\<open>TypeError\<close> on a component that is not a string.
\<close>

definition process_row :: "string \<Rightarrow> inventory_row \<Rightarrow> world \<Rightarrow> outcome \<times> world" where
  "process_row data_dmp r w =
     (case SourceItem_ArchiveFlag_Value r of
        CNone \<Rightarrow> (Ok, w)
      | CNum n \<Rightarrow> (Raised (AttributeError ''object has no attribute lower''), w)
      | CStr archiveFlagValue \<Rightarrow>
          if lower archiveFlagValue = archiveFlag then
            (case SourceItem_Owner r of
               CStr owner \<Rightarrow>
                 (let user_folder = path_join data_dmp owner;
                      w1 = (if \<not> path_exists user_folder w then mkdir user_folder w else w)
                  in case SourceItem_Id r of
                       CStr sid \<Rightarrow>
                         (let item_folder = path_join user_folder sid in
                          if \<not> path_exists item_folder w1
                          then archive_by_type r sid item_folder (mkdir item_folder w1)
                          else (Ok, w1))
                     | CNone \<Rightarrow> (Raised (TypeError ''expected str, bytes or os.PathLike object''), w1)
                     | CNum n \<Rightarrow> (Raised (TypeError ''expected str, bytes or os.PathLike object''), w1))
             | CNone \<Rightarrow> (Raised (TypeError ''expected str, bytes or os.PathLike object''), w)
             | CNum n \<Rightarrow> (Raised (TypeError ''expected str, bytes or os.PathLike object''), w))
          else (Ok, w))"

text \<open>
  The \<^verbatim>\<open>for\<close> loop: no statement of the loop catches an exception that leaves the body of a
  row, so such an exception ends the loop.
\<close>

fun sweep :: "string \<Rightarrow> inventory_row list \<Rightarrow> world \<Rightarrow> outcome \<times> world" where
  "sweep data_dmp [] w = (Ok, w)"
| "sweep data_dmp (r # rows) w =
     (case process_row data_dmp r w of
        (Raised e, w1) \<Rightarrow> (Raised e, w1)
      | (Ok, w1) \<Rightarrow> sweep data_dmp rows w1)"


section \<open>The script from its first statement\<close>

record config =
  sourcePortal :: string
  sourceUserName :: string
  sourcePassword :: string
  sourceUserId :: string
  inputExcelFile :: string
  data_dmp :: string

text \<open>
  What the collaborators outside the row loop answer: the sign-in (the token, or an
  exception), the identity request (the members of the JSON object of the response, each
  key once, or an exception) and the workbook (the rows of the sheet \<^verbatim>\<open>Inventory\<close>, or
  an exception).
\<close>

record environment =
  connect_result :: "exn + string"
  verify_response :: "exn + (string \<times> json) list"
  workbook :: "exn + cell list list"

text \<open>How the process ends: after the last statement, at a \<^verbatim>\<open>sys.exit(n)\<close>, or on an
  exception nothing catches.\<close>

datatype ending = Completed | Exited nat | Uncaught exn

definition log_configuration :: "config \<Rightarrow> world \<Rightarrow> world" where
  "log_configuration cfg w =
     logging INFO (''Input Reference Excel File Name: '' @ inputExcelFile cfg)
       (logging INFO (''Data backup location: '' @ data_dmp cfg)
          (logging INFO (''source UserId: '' @ sourceUserId cfg)
             (logging INFO (''source UserName: '' @ sourceUserName cfg)
                (logging INFO (''source Portal: '' @ sourcePortal cfg) w))))"

text \<open>Lines 119 to the end: the workbook is loaded and the rows are processed.\<close>

definition read_and_sweep :: "config \<Rightarrow> environment \<Rightarrow> world \<Rightarrow> ending \<times> world" where
  "read_and_sweep cfg env w =
     (let w1 = logging INFO ''Loading Excel and sheet ...'' w in
      case workbook env of
        Inl e \<Rightarrow> (Uncaught e, w1)
      | Inr Inventory \<Rightarrow>
          (case sweep (data_dmp cfg) (data_rows Inventory)
                  (logging INFO ''Processing rows in sheet ... '' w1) of
             (Ok, w2) \<Rightarrow> (Completed, w2)
           | (Raised e, w2) \<Rightarrow> (Uncaught e, w2)))"

text \<open>
  Lines 102 to 116: the identity check on the response of the service. Building either
  error message concatenates strings with the value at hand, which raises \<^verbatim>\<open>TypeError\<close>
  when that value is not a string.
\<close>

definition verify_source :: "config \<Rightarrow> environment \<Rightarrow> world \<Rightarrow> ending \<times> world" where
  "verify_source cfg env w =
     (case verify_response env of
        Inl e \<Rightarrow> (Uncaught e, remote VerifyIdentity w)
      | Inr json_source_response \<Rightarrow>
          (let w1 = remote VerifyIdentity w in
           if ''error'' \<notin> fst ` set json_source_response then
             (case map_of json_source_response ''id'' of
                None \<Rightarrow> (Uncaught (KeyError ''id''), w1)
              | Some (JStr Obtained_Source_ID) \<Rightarrow>
                  if Obtained_Source_ID = sourceUserId cfg then
                    read_and_sweep cfg env
                      (logging INFO
                         ''The user ID in the portal matches the configured user id. Continuing ...'' w1)
                  else
                    (Exited 0,
                     logging ERROR
                       (''The user id in the portal '' @ Obtained_Source_ID
                          @ '' is not the same as in Configured file '' @ sourceUserId cfg
                          @ '' . Exiting.'') w1)
              | Some other \<Rightarrow> (Uncaught (TypeError ''can only concatenate str to str''), w1))
           else (Uncaught (TypeError ''can only concatenate str to str''), w1)))"

text \<open>Lines 83 to 100, and then the rest.\<close>

definition main :: "config \<Rightarrow> environment \<Rightarrow> world \<Rightarrow> ending \<times> world" where
  "main cfg env w =
     (let w0 = log_configuration cfg w in
      if path_exists (inputExcelFile cfg) w0 then
        (let w1 = logging INFO ''Input Reference Excel File exists. Continuing ...'' w0 in
         case connect_result env of
           Inl e \<Rightarrow> (Uncaught e, remote Connect w1)
         | Inr SourceToken \<Rightarrow>
             (let w2 = logging INFO
                         (''Connected to Source AGOL '' @ sourcePortal cfg @ '' as '' @ sourceUserName cfg)
                         (remote Connect w1);
                  w3 = logging INFO (''The Source Generated Token is '' @ SourceToken) w2;
                  SourceTokenVerifyUrl =
                    sourcePortal cfg @ ''sharing/rest/community/users/'' @ sourceUserName cfg
                      @ ''?f=json&token='' @ SourceToken;
                  w4 = logging INFO (''Source User Verify URL --> '' @ SourceTokenVerifyUrl) w3
              in verify_source cfg env w4))
      else
        (Exited 0, logging ERROR ''Input Reference Excel File does not exist. Exiting.'' w0))"

section \<open>The classifier of the specification\<close>

text \<open>
  The script has no classifier of its own: the class of a type is the branch of
  \<open>archive_by_type\<close> it takes. \<open>classify\<close> follows the words of the specification, which
  names six classes and matches the declared type against five sets in the order file
  types, export-capable services, non-export-capable services, data-centric applications,
  other applications; \<open>strategy\<close> is the branch of the script that the specification names
  for each class.
\<close>

datatype TypeClass = FileAsset | ExportableService | NonExportableService
  | DataApplication | OtherApplication | Unclassified

definition classify :: "string \<Rightarrow> TypeClass" where
  "classify declaredType =
     (if declaredType \<in> set lst_file_types then FileAsset
      else if declaredType \<in> set lst_export_services then ExportableService
      else if declaredType \<in> set lst_other_services then NonExportableService
      else if declaredType \<in> set lst_data_apps then DataApplication
      else if declaredType \<in> set lst_other_apps then OtherApplication
      else Unclassified)"

fun strategy :: "TypeClass \<Rightarrow> inventory_row \<Rightarrow> string \<Rightarrow> string \<Rightarrow> world \<Rightarrow> outcome \<times> world" where
  "strategy FileAsset = strategy_file_types"
| "strategy ExportableService = strategy_export_services"
| "strategy NonExportableService = strategy_other_services"
| "strategy DataApplication = strategy_data_apps"
| "strategy OtherApplication = strategy_other_apps"
| "strategy Unclassified = strategy_unsupported"

section \<open>Notions used in the statements\<close>

text \<open>The paths that exist, and the remote calls a step has added to the trace.\<close>

definition paths :: "world \<Rightarrow> string set" where
  "paths w = dirs w \<union> dom (files w)"

definition calls_since :: "world \<Rightarrow> world \<Rightarrow> remote_call list" where
  "calls_since w w' = drop (length (calls w)) (calls w')"


text \<open>
  Lines 137 to 145 for a row: the destination folder, the world once the owner folder is
  there, whether the row gets as far as the type dispatch (its archive flag lowercases to
  the token, owner and id are strings, and the destination folder does not exist once the
  owner folder is there), and the world in which the dispatch then starts.
\<close>

definition destination :: "string \<Rightarrow> string \<Rightarrow> string \<Rightarrow> string" where
  "destination d owner sid = path_join (path_join d owner) sid"

definition owner_folder_ready :: "string \<Rightarrow> string \<Rightarrow> world \<Rightarrow> world" where
  "owner_folder_ready d owner w =
     (if \<not> path_exists (path_join d owner) w then mkdir (path_join d owner) w else w)"

definition passes_gates :: "string \<Rightarrow> inventory_row \<Rightarrow> string \<Rightarrow> string \<Rightarrow> world \<Rightarrow> bool" where
  "passes_gates d r owner sid w =
     ((case SourceItem_ArchiveFlag_Value r of
         CStr f \<Rightarrow> lower f = archiveFlag
       | CNone \<Rightarrow> False
       | CNum n \<Rightarrow> False)
      \<and> SourceItem_Owner r = CStr owner \<and> SourceItem_Id r = CStr sid
      \<and> \<not> path_exists (destination d owner sid) (owner_folder_ready d owner w))"

definition folders_created :: "string \<Rightarrow> string \<Rightarrow> string \<Rightarrow> world \<Rightarrow> world" where
  "folders_created d owner sid w = mkdir (destination d owner sid) (owner_folder_ready d owner w)"

section \<open>Example inputs\<close>

definition item_ok :: remote_item where
  "item_ok =
     \<lparr> title = ''Parcels'',
       download_result = Inr (''p.pdf'', ''bytes''),
       get_data_result = Inr (JDict [(''a'', JNum ''1'')]),
       export_result = Inr \<lparr> exported_id = ''e9'', exported_download = Inr (''x.zip'', ''zip'') \<rparr>,
       related_data_result = Inr [],
       related_services_result = Inr [],
       resources_export_result = Inr (''r.zip'', ''res''),
       delete_result = Inr True \<rparr>"

definition item_download_fails :: remote_item where
  "item_download_fails = item_ok \<lparr> download_result := Inl (Exception ''timeout'') \<rparr>"

definition item_export_fails :: remote_item where
  "item_export_fails = item_ok \<lparr> export_result := Inl (Exception ''export failed'') \<rparr>"

definition item_delete_fails :: remote_item where
  "item_delete_fails = item_ok \<lparr> delete_result := Inl (Exception ''locked'') \<rparr>"

definition row_pdf :: inventory_row where
  "row_pdf =
     \<lparr> SourceItem_Id = CStr ''a1'', SourceItem_Owner = CStr ''ann'',
       SourceItem_ArchiveFlag_Value = CStr ''Yes'', SourceItem_DeleteFlag_Value = CStr ''yes'',
       SourceItem_Type = CStr ''PDF'' \<rparr>"

definition row_map :: inventory_row where
  "row_map =
     \<lparr> SourceItem_Id = CStr ''b2'', SourceItem_Owner = CStr ''ann'',
       SourceItem_ArchiveFlag_Value = CStr ''yes'', SourceItem_DeleteFlag_Value = CStr ''no'',
       SourceItem_Type = CStr ''Web Map'' \<rparr>"

definition row_service :: inventory_row where
  "row_service =
     \<lparr> SourceItem_Id = CStr ''c3'', SourceItem_Owner = CStr ''bob'',
       SourceItem_ArchiveFlag_Value = CStr ''YES'', SourceItem_DeleteFlag_Value = CStr ''yes'',
       SourceItem_Type = CStr ''Feature Service'' \<rparr>"

definition row_unflagged :: inventory_row where
  "row_unflagged =
     \<lparr> SourceItem_Id = CStr ''d4'', SourceItem_Owner = CStr ''bob'',
       SourceItem_ArchiveFlag_Value = CStr ''No'', SourceItem_DeleteFlag_Value = CStr ''yes'',
       SourceItem_Type = CStr ''PDF'' \<rparr>"

definition row_numeric_flag :: inventory_row where
  "row_numeric_flag =
     \<lparr> SourceItem_Id = CStr ''d4'', SourceItem_Owner = CStr ''bob'',
       SourceItem_ArchiveFlag_Value = CNum 1, SourceItem_DeleteFlag_Value = CStr ''yes'',
       SourceItem_Type = CStr ''PDF'' \<rparr>"

definition row_csv :: inventory_row where
  "row_csv =
     \<lparr> SourceItem_Id = CStr ''e5'', SourceItem_Owner = CStr ''ann'',
       SourceItem_ArchiveFlag_Value = CStr ''yes'', SourceItem_DeleteFlag_Value = CStr ''yes'',
       SourceItem_Type = CStr ''CSV'' \<rparr>"

definition row_gone :: inventory_row where
  "row_gone =
     \<lparr> SourceItem_Id = CStr ''z9'', SourceItem_Owner = CStr ''ann'',
       SourceItem_ArchiveFlag_Value = CStr ''yes'', SourceItem_DeleteFlag_Value = CStr ''yes'',
       SourceItem_Type = CStr ''PDF'' \<rparr>"

definition world0 :: world where
  "world0 =
     \<lparr> dirs = {''/archive''},
       files = Map.empty,
       content = (\<lambda>_. Missing)
         (''a1'' := Found item_download_fails, ''b2'' := Found item_ok,
          ''c3'' := Found item_export_fails, ''e5'' := Found item_delete_fails),
       calls = [],
       log = [] \<rparr>"

definition config0 :: config where
  "config0 =
     \<lparr> sourcePortal = ''https://gis.example/'', sourceUserName = ''admin'',
       sourcePassword = ''secret'', sourceUserId = ''u1'',
       inputExcelFile = ''/inventory.xlsx'', data_dmp = ''/archive'' \<rparr>"

definition sheet0 :: "cell list list" where
  "sheet0 =
     [[CStr ''id'', CStr ''owner''],
      [CStr ''b2'', CStr ''ann'', CNone, CNone, CNone, CNone, CNone, CStr ''Web Map'', CNone,
       CNone, CStr ''yes'', CStr ''no'']]"

definition environment0 :: environment where
  "environment0 =
     \<lparr> connect_result = Inr ''token'',
       verify_response = Inr [(''username'', JStr ''admin''), (''id'', JStr ''u2'')],
       workbook = Inr sheet0 \<rparr>"

definition world_with_inventory :: world where
  "world_with_inventory = world0 \<lparr> files := [''/inventory.xlsx'' \<mapsto> ''workbook''] \<rparr>"

section \<open>Evaluating the examples\<close>

lemmas row_eval = process_row_def archive_by_type_def lower_def lower_char_def archiveFlag_def
  deleteFlag_def path_join_def path_exists_def mkdir_def remote_def logging_def append_file_def
  save_payload_def content_get_def lst_file_types_def lst_data_apps_def lst_export_services_def
  lst_other_services_def lst_other_apps_def

lemmas example_defs = item_ok_def item_download_fails_def item_export_fails_def
  item_delete_fails_def row_pdf_def row_map_def row_service_def row_unflagged_def
  row_numeric_flag_def row_csv_def row_gone_def world0_def

lemmas world_ops = mkdir_def remote_def logging_def append_file_def save_payload_def

lemmas strategy_defs = strategy_file_types_def strategy_data_apps_def strategy_export_services_def
  strategy_other_services_def strategy_other_apps_def strategy_unsupported_def archive_file_def
  write_data_document_def write_error_file_def error_data_def archive_export_def export_body_def
  archive_other_app_def form_relations_def delete_if_indicated_def delete_body_def
  item_download_def item_get_data_def item_export_def exported_item_download_def
  item_related_items_def related_item_download_def item_resources_export_def item_delete_def

section \<open>Paths only ever appear\<close>


lemma paths_mkdir [simp]: "paths (mkdir p w) = insert p (paths w)"
  by (simp add: paths_def mkdir_def)

lemma paths_append_file [simp]: "paths (append_file p t w) = insert p (paths w)"
  by (auto simp: paths_def append_file_def)

lemma paths_save_payload [simp]: "paths (save_payload d f w) = insert (path_join d (fst f)) (paths w)"
  by (auto simp: paths_def save_payload_def)

lemma paths_logging [simp]: "paths (logging l m w) = paths w"
  by (simp add: paths_def logging_def)

lemma paths_remote [simp]: "paths (remote c w) = paths w"
  by (simp add: paths_def remote_def)

lemma paths_content_update [simp]: "paths (w\<lparr>content := c\<rparr>) = paths w"
  by (simp add: paths_def)



























section \<open>From a row to its strategy\<close>

lemma process_row_dispatch:
  "passes_gates d r owner sid w \<Longrightarrow>
   process_row d r w = archive_by_type r sid (destination d owner sid) (folders_created d owner sid w)"
  by (auto simp: passes_gates_def process_row_def Let_def destination_def owner_folder_ready_def
      folders_created_def split: cell.splits)


lemma folders_created_fields [simp]:
  "files (folders_created d owner sid w) = files w"
  "content (folders_created d owner sid w) = content w"
  "calls (folders_created d owner sid w) = calls w"
  "log (folders_created d owner sid w) = log w"
  by (simp_all add: folders_created_def owner_folder_ready_def mkdir_def)

lemma calls_since_same [simp]: "calls_since w w = []"
  by (simp add: calls_since_def)

section \<open>The archive flag\<close>

text \<open>
  C4. A row whose archive flag is absent, or is a string that does not equal the archive
  token after lowercasing, leaves the world as it is: no folder is created and no remote
  call is made for it, and the sweep goes on with the next row.
\<close>

theorem unflagged_row_untouched:
  "SourceItem_ArchiveFlag_Value r = CNone \<or>
     (\<exists>f. SourceItem_ArchiveFlag_Value r = CStr f \<and> lower f \<noteq> archiveFlag) \<Longrightarrow>
   process_row d r w = (Ok, w) \<and> dirs (snd (process_row d r w)) = dirs w
     \<and> calls (snd (process_row d r w)) = calls w
     \<and> sweep d (r # rows) w = sweep d rows w"
  by (auto simp: process_row_def)

theorem unflagged_row_untouched_witness:
  "SourceItem_ArchiveFlag_Value row_unflagged = CStr ''No'' \<and> lower ''No'' \<noteq> archiveFlag
   \<and> process_row ''/archive'' row_unflagged world0 = (Ok, world0)
   \<and> calls (snd (process_row ''/archive'' row_unflagged world0)) = calls world0"
proof -
  have flag: "SourceItem_ArchiveFlag_Value row_unflagged = CStr ''No''"
    by (simp add: row_unflagged_def)
  have differs: "lower ''No'' \<noteq> archiveFlag"
    by (simp add: lower_def lower_char_def archiveFlag_def)
  from flag differs
  have "SourceItem_ArchiveFlag_Value row_unflagged = CNone \<or>
     (\<exists>f. SourceItem_ArchiveFlag_Value row_unflagged = CStr f \<and> lower f \<noteq> archiveFlag)"
    by blast
  from unflagged_row_untouched [OF this, of "''/archive''" world0] flag differs
  show ?thesis by simp
qed

text \<open>
  C10. The flag check lowercases every cell that is not empty. On a cell that holds a
  value which is not a string the check itself raises: the row is not skipped, and the
  exception ends the sweep.
\<close>

theorem non_string_flag_raises:
  "SourceItem_ArchiveFlag_Value r = CNum n \<Longrightarrow>
   process_row d r w = (Raised (AttributeError ''object has no attribute lower''), w)
     \<and> process_row d r w \<noteq> (Ok, w)
     \<and> sweep d (r # rows) w = (Raised (AttributeError ''object has no attribute lower''), w)"
  by (simp add: process_row_def)

theorem non_string_flag_raises_witness:
  "SourceItem_ArchiveFlag_Value row_numeric_flag = CNum 1
   \<and> process_row ''/archive'' row_numeric_flag world0
       = (Raised (AttributeError ''object has no attribute lower''), world0)
   \<and> sweep ''/archive'' [row_numeric_flag, row_map] world0
       = (Raised (AttributeError ''object has no attribute lower''), world0)"
proof -
  have flag: "SourceItem_ArchiveFlag_Value row_numeric_flag = CNum 1"
    by (simp add: row_numeric_flag_def)
  from non_string_flag_raises [OF flag, of "''/archive''" world0 "[row_map]"] flag
  show ?thesis by simp
qed

section \<open>The destination folder as the resume marker\<close>














section \<open>Classification\<close>

lemma lists_disjoint:
  "set lst_file_types \<inter> set lst_export_services = {}"
  "set lst_file_types \<inter> set lst_other_services = {}"
  "set lst_file_types \<inter> set lst_data_apps = {}"
  "set lst_file_types \<inter> set lst_other_apps = {}"
  "set lst_export_services \<inter> set lst_other_services = {}"
  "set lst_export_services \<inter> set lst_data_apps = {}"
  "set lst_export_services \<inter> set lst_other_apps = {}"
  "set lst_other_services \<inter> set lst_data_apps = {}"
  "set lst_other_services \<inter> set lst_other_apps = {}"
  "set lst_data_apps \<inter> set lst_other_apps = {}"
  by (simp_all add: lst_file_types_def lst_export_services_def lst_other_services_def
      lst_data_apps_def lst_other_apps_def)

lemma classify_cases:
  "(classify t = FileAsset) = (t \<in> set lst_file_types)"
  "(classify t = ExportableService) = (t \<in> set lst_export_services)"
  "(classify t = NonExportableService) = (t \<in> set lst_other_services)"
  "(classify t = DataApplication) = (t \<in> set lst_data_apps)"
  "(classify t = OtherApplication) = (t \<in> set lst_other_apps)"
  "(classify t = Unclassified) =
     (t \<notin> set lst_file_types \<union> set lst_export_services \<union> set lst_other_services
          \<union> set lst_data_apps \<union> set lst_other_apps)"
  using lists_disjoint by (auto simp: classify_def)

text \<open>
  C7. The five lists are pairwise disjoint; \<open>classify\<close>, a function of the type string
  alone, gives a class exactly when the string is an element of the list of that class
  (equality of strings, so case and spacing count) and \<open>Unclassified\<close> for every other
  string; and for a row with that type the chain of conditions of the script runs exactly
  the strategy of the class.
\<close>

theorem classification_selects_strategy:
  "archive_by_type (r\<lparr>SourceItem_Type := CStr t\<rparr>) sid folder w
     = strategy (classify t) (r\<lparr>SourceItem_Type := CStr t\<rparr>) sid folder w
   \<and> set lst_file_types \<inter> set lst_export_services = {}
   \<and> set lst_file_types \<inter> set lst_other_services = {}
   \<and> set lst_file_types \<inter> set lst_data_apps = {}
   \<and> set lst_file_types \<inter> set lst_other_apps = {}
   \<and> set lst_export_services \<inter> set lst_other_services = {}
   \<and> set lst_export_services \<inter> set lst_data_apps = {}
   \<and> set lst_export_services \<inter> set lst_other_apps = {}
   \<and> set lst_other_services \<inter> set lst_data_apps = {}
   \<and> set lst_other_services \<inter> set lst_other_apps = {}
   \<and> set lst_data_apps \<inter> set lst_other_apps = {}
   \<and> (classify t = FileAsset) = (t \<in> set lst_file_types)
   \<and> (classify t = ExportableService) = (t \<in> set lst_export_services)
   \<and> (classify t = NonExportableService) = (t \<in> set lst_other_services)
   \<and> (classify t = DataApplication) = (t \<in> set lst_data_apps)
   \<and> (classify t = OtherApplication) = (t \<in> set lst_other_apps)
   \<and> (classify t = Unclassified) =
       (t \<notin> set lst_file_types \<union> set lst_export_services \<union> set lst_other_services
            \<union> set lst_data_apps \<union> set lst_other_apps)
   \<and> classify ''PDF'' = FileAsset \<and> classify ''pdf'' = Unclassified
   \<and> classify ''PDF '' = Unclassified"
proof -
  have branch: "archive_by_type (r\<lparr>SourceItem_Type := CStr t\<rparr>) sid folder w
     = strategy (classify t) (r\<lparr>SourceItem_Type := CStr t\<rparr>) sid folder w"
    using lists_disjoint by (auto simp: archive_by_type_def classify_def)
  have exact: "classify ''PDF'' = FileAsset \<and> classify ''pdf'' = Unclassified
      \<and> classify ''PDF '' = Unclassified"
    by (simp add: classify_def lst_file_types_def lst_export_services_def lst_other_services_def
      lst_data_apps_def lst_other_apps_def)
  from branch exact lists_disjoint classify_cases [of t] show ?thesis
    by blast
qed

section \<open>Archival leaves the remote content alone\<close>







section \<open>The delete block\<close>








section \<open>Failure of an export\<close>





section \<open>Exceptions that leave a row\<close>

lemma uncaught_exception_ends_sweep:
  "process_row d r w = (Raised e, w1) \<Longrightarrow> sweep d (r # rows) w = (Raised e, w1)"
  by simp

lemma file_download_failure_propagates:
  assumes gate: "passes_gates d r owner sid w"
    and ty: "cell_in (SourceItem_Type r) lst_file_types"
    and found: "content w sid = Found it"
    and fails: "download_result it = Inl e"
  shows "process_row d r w
    = (Raised e, remote (Download sid) (remote (Fetch sid) (folders_created d owner sid w)))"
  using process_row_dispatch [OF gate] ty found fails
  by (simp add: archive_by_type_def strategy_file_types_def content_get_def archive_file_def
      item_download_def)

text \<open>
  C1 at a failing input. The first row is a PDF whose download raises, the second a web
  map that a sweep of its own archives without trouble. Nothing catches the exception of
  the download: it ends the sweep, and the second row is never looked at (no folder, no
  file and no remote call for it).
\<close>

theorem download_failure_ends_sweep:
  "passes_gates ''/archive'' row_pdf ''ann'' ''a1'' world0
   \<and> content world0 ''a1'' = Found item_download_fails
   \<and> download_result item_download_fails = Inl (Exception ''timeout'')
   \<and> fst (sweep ''/archive'' [row_pdf, row_map] world0) = Raised (Exception ''timeout'')
   \<and> calls (snd (sweep ''/archive'' [row_pdf, row_map] world0)) = [Fetch ''a1'', Download ''a1'']
   \<and> dirs (snd (sweep ''/archive'' [row_pdf, row_map] world0))
       = {''/archive'', ''/archive/ann'', ''/archive/ann/a1''}
   \<and> files (snd (sweep ''/archive'' [row_pdf, row_map] world0)) = Map.empty
   \<and> fst (sweep ''/archive'' [row_map] world0) = Ok
   \<and> calls (snd (sweep ''/archive'' [row_map] world0)) = [Fetch ''b2'', GetData ''b2'']"
  by (simp add: row_eval strategy_defs example_defs passes_gates_def destination_def
      owner_folder_ready_def insert_commute)

section \<open>The data document\<close>

lemma escape_char_nonempty: "1 \<le> length (escape_char c)"
  by (simp add: escape_char_def Let_def)

lemma escaped_not_shorter: "length s \<le> length (concat (map escape_char s))"
proof (induction s)
  case Nil
  then show ?case by simp
next
  case (Cons c s)
  with escape_char_nonempty [of c] show ?case by simp
qed

lemma encode_string_longer: "length s < length (encode_string s)"
  using escaped_not_shorter [of s] by (simp add: encode_string_def)

lemma dumps_twice_differs: "dumps (JStr (dumps doc)) \<noteq> dumps doc"
  using encode_string_longer [of "dumps doc"] by auto

lemma write_data_document_text:
  assumes "get_data_result it = Inr doc" and "SourceItem_Type r = CStr t"
  shows "write_data_document r sid it folder w
    = (Ok, append_file (path_join folder (t @ ''.json'')) (dumps (JStr (dumps doc)))
             (remote (GetData sid) w))"
  using assms by (simp add: write_data_document_def item_get_data_def)

text \<open>
  C8 at a failing input. The data document of the item is \<^verbatim>\<open>{"a": 1}\<close>. The file
  \<^verbatim>\<open>Web Map.json\<close> under the destination folder does not hold this serialisation: it
  holds the JSON string literal \<^verbatim>\<open>"{\"a\": 1}"\<close>, the serialisation encoded a second time.
\<close>

theorem data_document_is_encoded_twice:
  "get_data_result item_ok = Inr (JDict [(''a'', JNum ''1'')])
   \<and> dumps (JDict [(''a'', JNum ''1'')]) = ''{'' @ [CHR 0x22] @ ''a'' @ [CHR 0x22] @ '': 1}''
   \<and> fst (process_row ''/archive'' row_map world0) = Ok
   \<and> files (snd (process_row ''/archive'' row_map world0)) ''/archive/ann/b2/Web Map.json''
       = Some ([CHR 0x22] @ ''{'' @ [CHR 0x5C, CHR 0x22] @ ''a'' @ [CHR 0x5C, CHR 0x22] @ '': 1}''
               @ [CHR 0x22])
   \<and> files (snd (process_row ''/archive'' row_map world0)) ''/archive/ann/b2/Web Map.json''
       \<noteq> Some (dumps (JDict [(''a'', JNum ''1'')]))"
  by (simp add: row_eval strategy_defs example_defs encode_string_def escape_char_def)

section \<open>Before the first row\<close>

lemma sheet0_rows: "data_rows sheet0 = [row_map]"
  by (simp add: data_rows_def sheet0_def read_row_def cell_value_def row_map_def
      idColumnNumber_def ownerColumnNumber_def typeColumnNumber_def archiveFlagColumnNumber_def
      deleteFlagColumnNumber_def)

lemma log_configuration_fields [simp]:
  "dirs (log_configuration cfg w) = dirs w"
  "files (log_configuration cfg w) = files w"
  "content (log_configuration cfg w) = content w"
  "calls (log_configuration cfg w) = calls w"
  by (simp_all add: log_configuration_def logging_def)

text \<open>
  C5, as amended. When the inventory file does not exist, and when the service answers
  the identity request with an id that is a string other than the configured user id, the
  process ends at \<^verbatim>\<open>sys.exit(0)\<close>, so with exit status 0. No inventory row has been
  processed by then: the file system and the content of the service are as before, the
  only remote calls are the sign-in and the identity request, and the workbook has no
  influence on the result.
\<close>

theorem early_exit_status_zero:
  "(\<not> path_exists (inputExcelFile cfg) w \<longrightarrow>
      fst (main cfg env w) = Exited 0
      \<and> dirs (snd (main cfg env w)) = dirs w \<and> files (snd (main cfg env w)) = files w
      \<and> content (snd (main cfg env w)) = content w \<and> calls (snd (main cfg env w)) = calls w
      \<and> main cfg (env\<lparr>workbook := any_workbook\<rparr>) w = main cfg env w)
   \<and> (path_exists (inputExcelFile cfg) w \<and> connect_result env = Inr token
        \<and> verify_response env = Inr response \<and> ''error'' \<notin> fst ` set response
        \<and> map_of response ''id'' = Some (JStr obtained) \<and> obtained \<noteq> sourceUserId cfg \<longrightarrow>
      fst (main cfg env w) = Exited 0
      \<and> dirs (snd (main cfg env w)) = dirs w \<and> files (snd (main cfg env w)) = files w
      \<and> content (snd (main cfg env w)) = content w
      \<and> calls (snd (main cfg env w)) = calls w @ [Connect, VerifyIdentity]
      \<and> main cfg (env\<lparr>workbook := any_workbook\<rparr>) w = main cfg env w)"
  by (simp add: main_def verify_source_def path_exists_def Let_def world_ops)

theorem early_exit_status_zero_witness:
  "\<not> path_exists (inputExcelFile config0) world0
   \<and> fst (main config0 environment0 world0) = Exited 0
   \<and> calls (snd (main config0 environment0 world0)) = []
   \<and> path_exists (inputExcelFile config0) world_with_inventory
   \<and> map_of [(''username'', JStr ''admin''), (''id'', JStr ''u2'')] ''id'' = Some (JStr ''u2'')
   \<and> ''u2'' \<noteq> sourceUserId config0
   \<and> fst (main config0 environment0 world_with_inventory) = Exited 0
   \<and> calls (snd (main config0 environment0 world_with_inventory)) = [Connect, VerifyIdentity]
   \<and> files (snd (main config0 environment0 world_with_inventory)) = files world_with_inventory"
proof -
  have missing: "\<not> path_exists (inputExcelFile config0) world0"
    by (simp add: path_exists_def config0_def world0_def)
  have there: "path_exists (inputExcelFile config0) world_with_inventory"
    by (simp add: path_exists_def config0_def world_with_inventory_def)
  have connect: "connect_result environment0 = Inr ''token''"
    and verify: "verify_response environment0 = Inr [(''username'', JStr ''admin''), (''id'', JStr ''u2'')]"
    by (simp_all add: environment0_def)
  have no_error: "''error'' \<notin> fst ` set [(''username'', JStr ''admin''), (''id'', JStr ''u2'')]"
    by simp
  have obtained: "map_of [(''username'', JStr ''admin''), (''id'', JStr ''u2'')] ''id'' = Some (JStr ''u2'')"
    by simp
  have differs: "''u2'' \<noteq> sourceUserId config0"
    by (simp add: config0_def)
  have quiet: "calls world0 = []" "calls world_with_inventory = []"
    by (simp_all add: world0_def world_with_inventory_def)
  from early_exit_status_zero [of config0 world0 environment0] missing
  have first: "fst (main config0 environment0 world0) = Exited 0
      \<and> calls (snd (main config0 environment0 world0)) = calls world0"
    by blast
  from early_exit_status_zero [of config0 world_with_inventory environment0 _ "''token''"
      "[(''username'', JStr ''admin''), (''id'', JStr ''u2'')]" "''u2''"]
    there connect verify no_error obtained differs
  have second: "fst (main config0 environment0 world_with_inventory) = Exited 0
      \<and> calls (snd (main config0 environment0 world_with_inventory))
          = calls world_with_inventory @ [Connect, VerifyIdentity]
      \<and> files (snd (main config0 environment0 world_with_inventory)) = files world_with_inventory"
    by blast
  from missing there obtained differs first second quiet show ?thesis
    by simp
qed

text \<open>
  C5 as stated fails: with the inventory file missing the exit status is 0, not a
  non-zero one.
\<close>

theorem early_exit_status_is_zero_counterexample:
  "\<not> path_exists (inputExcelFile config0) world0
   \<and> fst (main config0 environment0 world0) = Exited 0"
  by (simp add: main_def path_exists_def config0_def world0_def log_configuration_def logging_def)

text \<open>
  For contrast: with the inventory file in place and the configured id in the answer of
  the service, the same configuration runs the rows of the sheet.
\<close>

lemma main_processes_rows_when_checks_pass:
  "fst (main config0 (environment0\<lparr>verify_response := Inr [(''id'', JStr ''u1'')]\<rparr>)
         world_with_inventory) = Completed
   \<and> calls (snd (main config0 (environment0\<lparr>verify_response := Inr [(''id'', JStr ''u1'')]\<rparr>)
         world_with_inventory)) = [Connect, VerifyIdentity, Fetch ''b2'', GetData ''b2'']"
  by code_simp

end
